theory Spec2Isabelle
  imports Main "HOL-Library.AList"
begin

section \<open>Python values, exceptions and dictionaries\<close>

text \<open>
  The client of \<^verbatim>\<open>deepseek_api.py\<close> keeps its state in Python objects: strings, dictionaries
  (the request headers, the cached credentials, the request payload) and lists (the chat
  history). \<open>py\<close> is the fragment of Python values that \<^verbatim>\<open>json.loads\<close> can return and that
  the client stores. A dictionary is an association list in insertion order; the
  assignment \<^verbatim>\<open>d[k] = v\<close> is \<open>AList.update k v d\<close> (an existing key keeps its place, a new
  key goes last), and a lookup is \<open>map_of d k\<close>.
\<close>

datatype py =
    PNone
  | PBool bool
  | PInt int
  | PFloat int int
  | PStr string
  | PList "py list"
  | PDict "(string \<times> py) list"

text \<open>An exception carries the text that \<^verbatim>\<open>str(e)\<close> gives.\<close>

datatype exn =
    ValueError string
  | AttributeError string
  | KeyError string
  | IndexError string
  | TypeError string
  | JSONDecodeError string
  | OtherError string

primrec exn_str :: "exn \<Rightarrow> string" where
  "exn_str (ValueError m) = m"
| "exn_str (AttributeError m) = m"
| "exn_str (KeyError m) = m"
| "exn_str (IndexError m) = m"
| "exn_str (TypeError m) = m"
| "exn_str (JSONDecodeError m) = m"
| "exn_str (OtherError m) = m"

definition squote :: "string \<Rightarrow> string" where
  "squote s = CHR 0x27 # s @ [CHR 0x27]"

fun py_type_name :: "py \<Rightarrow> string" where
  "py_type_name PNone = ''NoneType''"
| "py_type_name (PBool _) = ''bool''"
| "py_type_name (PInt _) = ''int''"
| "py_type_name (PFloat _ _) = ''float''"
| "py_type_name (PStr _) = ''str''"
| "py_type_name (PList _) = ''list''"
| "py_type_name (PDict _) = ''dict''"

text \<open>\<^verbatim>\<open>if x:\<close> on an \<^verbatim>\<open>Optional[str]\<close>: \<^verbatim>\<open>None\<close> and the empty string are false.\<close>

fun truthy :: "string option \<Rightarrow> bool" where
  "truthy None = False"
| "truthy (Some s) = (s \<noteq> [])"

text \<open>\<^verbatim>\<open>if d:\<close> on an optional dictionary: \<^verbatim>\<open>None\<close> and the empty dictionary are false.\<close>

fun dict_truthy :: "(string \<times> 'v) list option \<Rightarrow> bool" where
  "dict_truthy None = False"
| "dict_truthy (Some d) = (d \<noteq> [])"

text \<open>\<^verbatim>\<open>x.get(k)\<close>: on a dictionary the value or \<^verbatim>\<open>None\<close>; any other value of \<open>py\<close> has no
  attribute \<^verbatim>\<open>get\<close>.\<close>

fun py_get :: "py \<Rightarrow> string \<Rightarrow> exn + py" where
  "py_get (PDict kvs) k = Inr (case map_of kvs k of None \<Rightarrow> PNone | Some v \<Rightarrow> v)"
| "py_get v k =
     Inl (AttributeError (squote (py_type_name v) @ '' object has no attribute '' @ squote ''get''))"

text \<open>\<^verbatim>\<open>x[k]\<close> with a string key, and \<^verbatim>\<open>x[0]\<close>.\<close>

fun py_item :: "py \<Rightarrow> string \<Rightarrow> exn + py" where
  "py_item (PDict kvs) k =
     (case map_of kvs k of None \<Rightarrow> Inl (KeyError (squote k)) | Some v \<Rightarrow> Inr v)"
| "py_item (PList xs) k = Inl (TypeError ''list indices must be integers or slices, not str'')"
| "py_item (PStr s) k = Inl (TypeError ''string indices must be integers'')"
| "py_item v k = Inl (TypeError (squote (py_type_name v) @ '' object is not subscriptable''))"

fun py_item0 :: "py \<Rightarrow> exn + py" where
  "py_item0 (PList []) = Inl (IndexError ''list index out of range'')"
| "py_item0 (PList (x # xs)) = Inr x"
| "py_item0 (PStr []) = Inl (IndexError ''string index out of range'')"
| "py_item0 (PStr (c # cs)) = Inr (PStr [c])"
| "py_item0 (PDict kvs) = Inl (KeyError ''0'')"
| "py_item0 v = Inl (TypeError (squote (py_type_name v) @ '' object is not subscriptable''))"

text \<open>\<^verbatim>\<open>f"{x}"\<close> of an \<^verbatim>\<open>Optional[str]\<close>.\<close>

fun fmt :: "string option \<Rightarrow> string" where
  "fmt None = ''None''"
| "fmt (Some s) = s"

text \<open>\<^verbatim>\<open>os.path.join(a, b)\<close> for a relative \<open>b\<close>.\<close>

definition path_join :: "string \<Rightarrow> string \<Rightarrow> string" where
  "path_join a b = (if a = [] then b else if last a = CHR ''/'' then a @ b else a @ ''/'' @ b)"

section \<open>The world outside the client\<close>

text \<open>
  A path of the file system is absent, present but failing to open or read (the
  exception it raises), or a text file. \<open>write_error\<close> says which paths cannot be opened
  for writing. A write that succeeds leaves a text file that reads back what was written.
\<close>

datatype disk_file = NoFile | Unreadable exn | File string

text \<open>A network call as the remote service sees it; the log of the world holds them in
  order, so that "no network call" is "the log did not grow".\<close>

datatype call =
    SessionCall
  | AuthCall string string string
  | CookieCall string
  | GetCall string "(string \<times> py) list"
  | StreamCall string string "(string \<times> py) list" py

record world =
  files :: "string \<Rightarrow> disk_file"
  write_error :: "string \<Rightarrow> exn option"
  net_log :: "call list"
  stdout :: "string list"

definition print :: "string \<Rightarrow> world \<Rightarrow> world" where
  "print s w = w\<lparr>stdout := stdout w @ [s]\<rparr>"

definition net :: "call \<Rightarrow> world \<Rightarrow> world" where
  "net c w = w\<lparr>net_log := net_log w @ [c]\<rparr>"

text \<open>The transport object a facade holds: the asynchronous client of the helper module
  or the blocking \<^verbatim>\<open>httpx.Client\<close>, each built from the proxies.\<close>

datatype client =
    AsyncClient "(string \<times> string) list option"
  | HttpxClient "(string \<times> string) list option"

text \<open>An HTTP response: its status, and what \<^verbatim>\<open>response.json()\<close> gives or raises.\<close>

record response =
  status_code :: nat
  resp_json :: "exn + py"

text \<open>
  The helper module \<^verbatim>\<open>utils\<close>, the libraries \<^verbatim>\<open>json\<close>, \<^verbatim>\<open>aiohttp\<close> and \<^verbatim>\<open>httpx\<close> and the
  remote service are not part of the file under study: they are parameters of the model.
  A helper that raises returns \<open>Inl\<close>. In the asynchronous facade the helpers are awaited;
  the model takes the awaited result.
\<close>

record env =
  home :: string
  get_headers :: "(string \<times> py) list"
  get_session_id :: "client \<Rightarrow> exn + string"
  get_auth_token :: "client \<Rightarrow> string \<Rightarrow> string \<Rightarrow> string \<Rightarrow> exn + string"
  get_cookies :: "client \<Rightarrow> string \<Rightarrow> exn + string"
  raise_for_status :: "response \<Rightarrow> exn option"
  process_stream_response :: "response \<Rightarrow> py list"
  json_loads :: "string \<Rightarrow> exn + py"
  json_dumps :: "py \<Rightarrow> string"
  aiohttp_get :: "(string \<times> py) list \<Rightarrow> string \<Rightarrow> string option \<Rightarrow> exn + response"
  client_get :: "client \<Rightarrow> string \<Rightarrow> (string \<times> py) list \<Rightarrow> exn + response"
  client_stream ::
    "client \<Rightarrow> string \<Rightarrow> string \<Rightarrow> (string \<times> py) list \<Rightarrow> py \<Rightarrow> exn + response"

section \<open>The two facades\<close>

text \<open>The attributes of \<^verbatim>\<open>AsyncDeepseekAPI\<close> and of \<^verbatim>\<open>SyncDeepseekAPI\<close> (the same in both).
  An attribute that \<^verbatim>\<open>__init__\<close> does not set is \<open>None\<close> until \<^verbatim>\<open>login\<close> assigns it.\<close>

record api =
  email :: "string option"
  password :: "string option"
  proxies :: "(string \<times> string) list option"
  api_key :: "string option"
  base_url :: "string option"
  headers :: "(string \<times> py) list"
  credentials_path :: string
  chat_headers :: "(string \<times> py) list option"
  chat_history :: "py list"
  client :: client
  credentials :: "py option"
  session_id :: "string option"
  auth_token :: "string option"
  cookie :: "string option"

definition async_init ::
  "env \<Rightarrow> string option \<Rightarrow> string option \<Rightarrow> (string \<times> string) list option \<Rightarrow>
   string option \<Rightarrow> string option \<Rightarrow> api" where
  "async_init env em pw px key url =
     \<lparr>email = em, password = pw, proxies = px, api_key = key, base_url = url,
      headers = get_headers env,
      credentials_path = path_join (home env) ''.deepseek_credentials.json'',
      chat_headers = None, chat_history = [], client = AsyncClient px,
      credentials = None, session_id = None, auth_token = None, cookie = None\<rparr>"

definition sync_init ::
  "env \<Rightarrow> string option \<Rightarrow> string option \<Rightarrow> (string \<times> string) list option \<Rightarrow>
   string option \<Rightarrow> string option \<Rightarrow> api" where
  "sync_init env em pw px key url =
     \<lparr>email = em, password = pw, proxies = px, api_key = key, base_url = url,
      headers = get_headers env,
      credentials_path = path_join (home env) ''.deepseek_credentials.json'',
      chat_headers = None, chat_history = [], client = HttpxClient px,
      credentials = None, session_id = None, auth_token = None, cookie = None\<rparr>"

subsection \<open>login\<close>

text \<open>
  Lines 58 to 75 (asynchronous) and 158 to 175 (blocking): the check of email and
  password, the three helper calls with the header updates between them, and the save of
  the credentials. An exception leaves the attributes assigned so far.
\<close>

definition async_fresh_login :: "env \<Rightarrow> api \<Rightarrow> world \<Rightarrow> (exn + unit) \<times> api \<times> world" where
  "async_fresh_login env a w =
     (if \<not> truthy (email a) \<or> \<not> truthy (password a)
      then (Inl (ValueError ''Email and password are required for login.''), a, w)
      else
        let w1 = net SessionCall w in
        case get_session_id env (client a) of
          Inl e \<Rightarrow> (Inl e, a, w1)
        | Inr sid \<Rightarrow>
            let a1 = a\<lparr>session_id := Some sid\<rparr>;
                a2 = a1\<lparr>headers := AList.update ''Cookie'' (PStr (''session-id='' @ sid)) (headers a1)\<rparr>;
                w2 = net (AuthCall (fmt (email a2)) (fmt (password a2)) sid) w1 in
            case get_auth_token env (client a2) (fmt (email a2)) (fmt (password a2)) sid of
              Inl e \<Rightarrow> (Inl e, a2, w2)
            | Inr tok \<Rightarrow>
                let a3 = a2\<lparr>auth_token := Some tok\<rparr>;
                    a4 = a3\<lparr>headers := AList.update ''Authorization'' (PStr (''Bearer '' @ tok)) (headers a3)\<rparr>;
                    w3 = net (CookieCall tok) w2 in
                case get_cookies env (client a4) tok of
                  Inl e \<Rightarrow> (Inl e, a4, w3)
                | Inr ck \<Rightarrow>
                    let a5 = a4\<lparr>cookie := Some ck\<rparr>;
                        a6 = a5\<lparr>headers := AList.update ''Cookie'' (PStr ck) (headers a5)\<rparr>;
                        a7 = a6\<lparr>credentials := Some (PDict
                               [(''session_id'', PStr sid), (''auth_token'', PStr tok),
                                (''cookie'', PStr ck)])\<rparr> in
                    case write_error w3 (credentials_path a7) of
                      Some e \<Rightarrow> (Inl e, a7, w3)
                    | None \<Rightarrow>
                        (Inr (), a7,
                         w3\<lparr>files := (files w3)(credentials_path a7 :=
                               File (json_dumps env (PDict
                                 [(''session_id'', PStr sid), (''auth_token'', PStr tok),
                                  (''cookie'', PStr ck)])))\<rparr>))"

definition sync_fresh_login :: "env \<Rightarrow> api \<Rightarrow> world \<Rightarrow> (exn + unit) \<times> api \<times> world" where
  "sync_fresh_login env a w =
     (if \<not> truthy (email a) \<or> \<not> truthy (password a)
      then (Inl (ValueError ''Email and password are required for login.''), a, w)
      else
        let w1 = net SessionCall w in
        case get_session_id env (client a) of
          Inl e \<Rightarrow> (Inl e, a, w1)
        | Inr sid \<Rightarrow>
            let a1 = a\<lparr>session_id := Some sid\<rparr>;
                a2 = a1\<lparr>headers := AList.update ''Cookie'' (PStr (''session-id='' @ sid)) (headers a1)\<rparr>;
                w2 = net (AuthCall (fmt (email a2)) (fmt (password a2)) sid) w1 in
            case get_auth_token env (client a2) (fmt (email a2)) (fmt (password a2)) sid of
              Inl e \<Rightarrow> (Inl e, a2, w2)
            | Inr tok \<Rightarrow>
                let a3 = a2\<lparr>auth_token := Some tok\<rparr>;
                    a4 = a3\<lparr>headers := AList.update ''Authorization'' (PStr (''Bearer '' @ tok)) (headers a3)\<rparr>;
                    w3 = net (CookieCall tok) w2 in
                case get_cookies env (client a4) tok of
                  Inl e \<Rightarrow> (Inl e, a4, w3)
                | Inr ck \<Rightarrow>
                    let a5 = a4\<lparr>cookie := Some ck\<rparr>;
                        a6 = a5\<lparr>headers := AList.update ''Cookie'' (PStr ck) (headers a5)\<rparr>;
                        a7 = a6\<lparr>credentials := Some (PDict
                               [(''session_id'', PStr sid), (''auth_token'', PStr tok),
                                (''cookie'', PStr ck)])\<rparr> in
                    case write_error w3 (credentials_path a7) of
                      Some e \<Rightarrow> (Inl e, a7, w3)
                    | None \<Rightarrow>
                        (Inr (), a7,
                         w3\<lparr>files := (files w3)(credentials_path a7 :=
                               File (json_dumps env (PDict
                                 [(''session_id'', PStr sid), (''auth_token'', PStr tok),
                                  (''cookie'', PStr ck)])))\<rparr>))"

text \<open>
  \<^verbatim>\<open>login\<close>, lines 42 to 56 and 142 to 156, then the fresh login. The \<^verbatim>\<open>try\<close> block
  catches every exception of opening, reading, parsing and of \<^verbatim>\<open>.get\<close>, prints it and falls
  through; \<^verbatim>\<open>self.credentials\<close> is assigned before \<^verbatim>\<open>.get\<close> is evaluated.
\<close>

definition async_login :: "env \<Rightarrow> api \<Rightarrow> world \<Rightarrow> (exn + unit) \<times> api \<times> world" where
  "async_login env a w =
     (if truthy (api_key a)
      then (Inr (),
            a\<lparr>headers := AList.update ''Authorization'' (PStr (''Bearer '' @ fmt (api_key a))) (headers a)\<rparr>,
            w)
      else
        case files w (credentials_path a) of
          NoFile \<Rightarrow> async_fresh_login env a w
        | Unreadable e \<Rightarrow>
            async_fresh_login env a (print (''Error loading credentials: '' @ exn_str e) w)
        | File content \<Rightarrow>
            (case json_loads env content of
               Inl e \<Rightarrow>
                 async_fresh_login env a (print (''Error loading credentials: '' @ exn_str e) w)
             | Inr v \<Rightarrow>
                 let a1 = a\<lparr>credentials := Some v\<rparr> in
                 (case py_get v ''cookie'' of
                    Inl e \<Rightarrow>
                      async_fresh_login env a1
                        (print (''Error loading credentials: '' @ exn_str e) w)
                  | Inr ck \<Rightarrow>
                      (Inr (), a1\<lparr>headers := AList.update ''Cookie'' ck (headers a1)\<rparr>, w))))"

definition sync_login :: "env \<Rightarrow> api \<Rightarrow> world \<Rightarrow> (exn + unit) \<times> api \<times> world" where
  "sync_login env a w =
     (if truthy (api_key a)
      then (Inr (),
            a\<lparr>headers := AList.update ''Authorization'' (PStr (''Bearer '' @ fmt (api_key a))) (headers a)\<rparr>,
            w)
      else
        case files w (credentials_path a) of
          NoFile \<Rightarrow> sync_fresh_login env a w
        | Unreadable e \<Rightarrow>
            sync_fresh_login env a (print (''Error loading credentials: '' @ exn_str e) w)
        | File content \<Rightarrow>
            (case json_loads env content of
               Inl e \<Rightarrow>
                 sync_fresh_login env a (print (''Error loading credentials: '' @ exn_str e) w)
             | Inr v \<Rightarrow>
                 let a1 = a\<lparr>credentials := Some v\<rparr> in
                 (case py_get v ''cookie'' of
                    Inl e \<Rightarrow>
                      sync_fresh_login env a1
                        (print (''Error loading credentials: '' @ exn_str e) w)
                  | Inr ck \<Rightarrow>
                      (Inr (), a1\<lparr>headers := AList.update ''Cookie'' ck (headers a1)\<rparr>, w))))"

subsection \<open>get_models\<close>

text \<open>Lines 77 to 82: the asynchronous facade opens an \<^verbatim>\<open>aiohttp\<close> session with the headers
  and passes the \<^verbatim>\<open>https\<close> proxy with the request. Lines 177 to 181: the blocking facade
  asks its own client.\<close>

definition https_proxy :: "(string \<times> string) list option \<Rightarrow> string option" where
  "https_proxy px =
     (if dict_truthy px then (case px of None \<Rightarrow> None | Some d \<Rightarrow> map_of d ''https'') else None)"

definition async_get_models :: "env \<Rightarrow> api \<Rightarrow> world \<Rightarrow> (exn + py) \<times> api \<times> world" where
  "async_get_models env a w =
     (let url = fmt (base_url a) @ ''/api/models'';
          proxy = https_proxy (proxies a);
          w1 = net (GetCall url (headers a)) w in
      case aiohttp_get env (headers a) url proxy of
        Inl e \<Rightarrow> (Inl e, a, w1)
      | Inr r \<Rightarrow>
          (case raise_for_status env r of
             Some e \<Rightarrow> (Inl e, a, w1)
           | None \<Rightarrow> (resp_json r, a, w1)))"

definition sync_get_models :: "env \<Rightarrow> api \<Rightarrow> world \<Rightarrow> (exn + py) \<times> api \<times> world" where
  "sync_get_models env a w =
     (let url = fmt (base_url a) @ ''/api/models'';
          w1 = net (GetCall url (headers a)) w in
      case client_get env (client a) url (headers a) of
        Inl e \<Rightarrow> (Inl e, a, w1)
      | Inr r \<Rightarrow>
          (case raise_for_status env r of
             Some e \<Rightarrow> (Inl e, a, w1)
           | None \<Rightarrow> (resp_json r, a, w1)))"

subsection \<open>send_message\<close>

text \<open>What \<^verbatim>\<open>send_message\<close> returns: the parsed reply, or the sequence that the stream
  decoder of the helper module makes of the response.\<close>

datatype reply = Reply py | Stream "py list"

text \<open>Lines 91 to 94 and 190 to 193: the chat headers are computed once, from a copy of
  the headers.\<close>

definition with_chat_headers :: "api \<Rightarrow> api" where
  "with_chat_headers a =
     (if \<not> dict_truthy (chat_headers a)
      then a\<lparr>chat_headers := Some
             (AList.update ''Content-Type'' (PStr ''application/json'')
               (AList.update ''Accept'' (PStr ''text/event-stream'') (headers a)))\<rparr>
      else a)"

definition sent_headers :: "api \<Rightarrow> (string \<times> py) list" where
  "sent_headers a = (case chat_headers a of None \<Rightarrow> [] | Some h \<Rightarrow> h)"

text \<open>Lines 96 to 102 and 195 to 201: the dictionary display, with the keyword arguments
  written last, over the four fixed keys.\<close>

definition chat_payload ::
  "string \<Rightarrow> string \<Rightarrow> bool \<Rightarrow> (string \<times> py) list \<Rightarrow> api \<Rightarrow> py" where
  "chat_payload message model stream kwargs a =
     PDict (fold (\<lambda>(k, v). AList.update k v) kwargs
       [(''message'', PStr message),
        (''stream'', PBool stream),
        (''model_class'',
           PStr (if model = ''deepseek-chat'' then ''deepseek_chat'' else ''deepseek_code'')),
        (''chat_history'', PList (chat_history a))])"

definition chat_url :: "api \<Rightarrow> string" where
  "chat_url a = fmt (base_url a) @ ''/api/chat/send''"

definition user_turn :: "string \<Rightarrow> py" where
  "user_turn message = PDict [(''role'', PStr ''user''), (''content'', PStr message)]"

definition assistant_turn :: "py \<Rightarrow> py" where
  "assistant_turn c = PDict [(''role'', PStr ''assistant''), (''content'', c)]"

text \<open>\<^verbatim>\<open>response_json["choices"][0]["message"]["content"]\<close>, left to right.\<close>

definition reply_content :: "py \<Rightarrow> exn + py" where
  "reply_content rj =
     (case py_item rj ''choices'' of
        Inl e \<Rightarrow> Inl e
      | Inr chs \<Rightarrow>
          (case py_item0 chs of
             Inl e \<Rightarrow> Inl e
           | Inr ch \<Rightarrow>
               (case py_item ch ''message'' of
                  Inl e \<Rightarrow> Inl e
                | Inr m \<Rightarrow> py_item m ''content'')))"

text \<open>Lines 84 to 112 and 183 to 211. The user turn is appended before the content of
  the reply is looked up, so a reply of another shape leaves the user turn behind.\<close>

definition async_send_message ::
  "env \<Rightarrow> string \<Rightarrow> string \<Rightarrow> bool \<Rightarrow> (string \<times> py) list \<Rightarrow> api \<Rightarrow> world \<Rightarrow>
   (exn + reply) \<times> api \<times> world" where
  "async_send_message env message model stream kwargs a w =
     (let a1 = with_chat_headers a;
          payload = chat_payload message model stream kwargs a1;
          url = chat_url a1;
          w1 = net (StreamCall ''POST'' url (sent_headers a1) payload) w in
      case client_stream env (client a1) ''POST'' url (sent_headers a1) payload of
        Inl e \<Rightarrow> (Inl e, a1, w1)
      | Inr r \<Rightarrow>
          (case raise_for_status env r of
             Some e \<Rightarrow> (Inl e, a1, w1)
           | None \<Rightarrow>
               if stream then (Inr (Stream (process_stream_response env r)), a1, w1)
               else
                 (case resp_json r of
                    Inl e \<Rightarrow> (Inl e, a1, w1)
                  | Inr rj \<Rightarrow>
                      let a2 = a1\<lparr>chat_history := chat_history a1 @ [user_turn message]\<rparr> in
                      (case reply_content rj of
                         Inl e \<Rightarrow> (Inl e, a2, w1)
                       | Inr c \<Rightarrow>
                           (Inr (Reply rj),
                            a2\<lparr>chat_history := chat_history a2 @ [assistant_turn c]\<rparr>,
                            w1)))))"

definition sync_send_message ::
  "env \<Rightarrow> string \<Rightarrow> string \<Rightarrow> bool \<Rightarrow> (string \<times> py) list \<Rightarrow> api \<Rightarrow> world \<Rightarrow>
   (exn + reply) \<times> api \<times> world" where
  "sync_send_message env message model stream kwargs a w =
     (let a1 = with_chat_headers a;
          payload = chat_payload message model stream kwargs a1;
          url = chat_url a1;
          w1 = net (StreamCall ''POST'' url (sent_headers a1) payload) w in
      case client_stream env (client a1) ''POST'' url (sent_headers a1) payload of
        Inl e \<Rightarrow> (Inl e, a1, w1)
      | Inr r \<Rightarrow>
          (case raise_for_status env r of
             Some e \<Rightarrow> (Inl e, a1, w1)
           | None \<Rightarrow>
               if stream then (Inr (Stream (process_stream_response env r)), a1, w1)
               else
                 (case resp_json r of
                    Inl e \<Rightarrow> (Inl e, a1, w1)
                  | Inr rj \<Rightarrow>
                      let a2 = a1\<lparr>chat_history := chat_history a1 @ [user_turn message]\<rparr> in
                      (case reply_content rj of
                         Inl e \<Rightarrow> (Inl e, a2, w1)
                       | Inr c \<Rightarrow>
                           (Inr (Reply rj),
                            a2\<lparr>chat_history := chat_history a2 @ [assistant_turn c]\<rparr>,
                            w1)))))"

subsection \<open>Sequences of operations\<close>

text \<open>A caller drives a facade through its three public operations; an exception of one
  operation is an outcome, and the caller may go on.\<close>

datatype operation =
    Login
  | GetModels
  | SendMessage string string bool "(string \<times> py) list"

datatype outcome =
    LoginDone "exn + unit"
  | ModelsDone "exn + py"
  | MessageDone "exn + reply"

fun async_do :: "env \<Rightarrow> operation \<Rightarrow> api \<Rightarrow> world \<Rightarrow> outcome \<times> api \<times> world" where
  "async_do env Login a w = (case async_login env a w of (r, a1, w1) \<Rightarrow> (LoginDone r, a1, w1))"
| "async_do env GetModels a w =
     (case async_get_models env a w of (r, a1, w1) \<Rightarrow> (ModelsDone r, a1, w1))"
| "async_do env (SendMessage message model stream kwargs) a w =
     (case async_send_message env message model stream kwargs a w of
        (r, a1, w1) \<Rightarrow> (MessageDone r, a1, w1))"

fun sync_do :: "env \<Rightarrow> operation \<Rightarrow> api \<Rightarrow> world \<Rightarrow> outcome \<times> api \<times> world" where
  "sync_do env Login a w = (case sync_login env a w of (r, a1, w1) \<Rightarrow> (LoginDone r, a1, w1))"
| "sync_do env GetModels a w =
     (case sync_get_models env a w of (r, a1, w1) \<Rightarrow> (ModelsDone r, a1, w1))"
| "sync_do env (SendMessage message model stream kwargs) a w =
     (case sync_send_message env message model stream kwargs a w of
        (r, a1, w1) \<Rightarrow> (MessageDone r, a1, w1))"

fun async_run :: "env \<Rightarrow> operation list \<Rightarrow> api \<Rightarrow> world \<Rightarrow> outcome list \<times> api \<times> world" where
  "async_run env [] a w = ([], a, w)"
| "async_run env (x # xs) a w =
     (case async_do env x a w of
        (r, a1, w1) \<Rightarrow> (case async_run env xs a1 w1 of (rs, a2, w2) \<Rightarrow> (r # rs, a2, w2)))"

fun sync_run :: "env \<Rightarrow> operation list \<Rightarrow> api \<Rightarrow> world \<Rightarrow> outcome list \<times> api \<times> world" where
  "sync_run env [] a w = ([], a, w)"
| "sync_run env (x # xs) a w =
     (case sync_do env x a w of
        (r, a1, w1) \<Rightarrow> (case sync_run env xs a1 w1 of (rs, a2, w2) \<Rightarrow> (r # rs, a2, w2)))"

text \<open>The two transports answer alike: a helper called directly on the blocking client
  gives what the awaited call on the asynchronous client gives, and an \<^verbatim>\<open>aiohttp\<close> session
  that is given the \<^verbatim>\<open>https\<close> proxy of the configuration answers a GET as the blocking
  client does.\<close>

definition same_transport ::
  "env \<Rightarrow> client \<Rightarrow> client \<Rightarrow> (string \<times> string) list option \<Rightarrow> bool" where
  "same_transport env ca cs px \<longleftrightarrow>
     get_session_id env ca = get_session_id env cs \<and>
     get_auth_token env ca = get_auth_token env cs \<and>
     get_cookies env ca = get_cookies env cs \<and>
     client_stream env ca = client_stream env cs \<and>
     (\<forall>hs url. aiohttp_get env hs url (https_proxy px) = client_get env cs url hs)"

definition with_client :: "client \<Rightarrow> 'r \<times> api \<times> world \<Rightarrow> 'r \<times> api \<times> world" where
  "with_client c = (\<lambda>(r, a, w). (r, a\<lparr>client := c\<rparr>, w))"

text \<open>A cached credential file is usable when it exists, reads, and parses to a JSON
  object.\<close>

definition cache_usable :: "env \<Rightarrow> api \<Rightarrow> world \<Rightarrow> bool" where
  "cache_usable env a w =
     (case files w (credentials_path a) of
        File content \<Rightarrow>
          (case json_loads env content of Inr (PDict kvs) \<Rightarrow> True | _ \<Rightarrow> False)
      | _ \<Rightarrow> False)"

section \<open>The stream decoder\<close>

text \<open>
  Modelled from the spec: the Stream Decoder (\<^verbatim>\<open>process_stream_response\<close> of the helper
  module \<^verbatim>\<open>utils\<close>, which is not among the sources). It reads the frames of the response in
  order, stops at the first sentinel frame, skips a frame that is empty, is a keep-alive
  ping or does not parse as JSON, and yields the parsed value of every other frame. Which
  frames are sentinels and keep-alive pings, and the parser, are parameters.
\<close>

fun stream_decoder ::
  "(string \<Rightarrow> bool) \<Rightarrow> (string \<Rightarrow> bool) \<Rightarrow> (string \<Rightarrow> exn + py) \<Rightarrow> string list \<Rightarrow> py list" where
  "stream_decoder sentinel keep_alive loads [] = []"
| "stream_decoder sentinel keep_alive loads (f # fs) =
     (if sentinel f then []
      else if f = [] \<or> keep_alive f then stream_decoder sentinel keep_alive loads fs
      else
        (case loads f of
           Inl e \<Rightarrow> stream_decoder sentinel keep_alive loads fs
         | Inr v \<Rightarrow> v # stream_decoder sentinel keep_alive loads fs))"

text \<open>The claim's words: the valid parsed frames that precede the first sentinel, in
  order.\<close>

definition frame_value :: "(string \<Rightarrow> bool) \<Rightarrow> (string \<Rightarrow> exn + py) \<Rightarrow> string \<Rightarrow> py list" where
  "frame_value keep_alive loads f =
     (if f = [] \<or> keep_alive f then []
      else (case loads f of Inl e \<Rightarrow> [] | Inr v \<Rightarrow> [v]))"

definition frames_before_sentinel ::
  "(string \<Rightarrow> bool) \<Rightarrow> (string \<Rightarrow> bool) \<Rightarrow> (string \<Rightarrow> exn + py) \<Rightarrow> string list \<Rightarrow> py list" where
  "frames_before_sentinel sentinel keep_alive loads fs =
     concat (map (frame_value keep_alive loads) (takeWhile (\<lambda>f. \<not> sentinel f) fs))"

section \<open>A mocked environment\<close>

text \<open>A transport and a JSON library small enough to evaluate: every helper answers with
  a fixed value, and the parser knows four texts.\<close>

definition dquote :: "string \<Rightarrow> string" where
  "dquote s = CHR 0x22 # s @ [CHR 0x22]"

fun mock_dumps :: "py \<Rightarrow> string" where
  "mock_dumps (PDict [(k1, PStr v1), (k2, PStr v2), (k3, PStr v3)]) =
     ''{'' @ dquote k1 @ '': '' @ dquote v1 @ '', '' @ dquote k2 @ '': '' @ dquote v2 @ '', ''
       @ dquote k3 @ '': '' @ dquote v3 @ ''}''"
| "mock_dumps v = ''null''"

definition mock_creds :: py where
  "mock_creds =
     PDict [(''session_id'', PStr ''sid''), (''auth_token'', PStr ''tok''), (''cookie'', PStr ''ck'')]"

definition mock_loads :: "string \<Rightarrow> exn + py" where
  "mock_loads s =
     (if s = mock_dumps mock_creds then Inr mock_creds
      else if s = ''{}'' then Inr (PDict [])
      else if s = ''[]'' then Inr (PList [])
      else if s = ''null'' then Inr PNone
      else Inl (JSONDecodeError ''Expecting value: line 1 column 1 (char 0)''))"

definition mock_response :: response where
  "mock_response =
     \<lparr>status_code = 200,
      resp_json = Inr (PDict [(''choices'',
        PList [PDict [(''message'', PDict [(''content'', PStr ''hi'')])]])])\<rparr>"

definition mock_env :: env where
  "mock_env =
     \<lparr>home = ''/home/u'',
      get_headers = [(''User-Agent'', PStr ''mock'')],
      get_session_id = (\<lambda>c. Inr ''sid''),
      get_auth_token = (\<lambda>c em pw sid. Inr ''tok''),
      get_cookies = (\<lambda>c tok. Inr ''ck''),
      raise_for_status = (\<lambda>r. None),
      process_stream_response = (\<lambda>r. []),
      json_loads = mock_loads,
      json_dumps = mock_dumps,
      aiohttp_get = (\<lambda>hs url px. Inr mock_response),
      client_get = (\<lambda>c url hs. Inr mock_response),
      client_stream = (\<lambda>c m url hs pl. Inr mock_response)\<rparr>"

definition mock_world :: "disk_file \<Rightarrow> world" where
  "mock_world f =
     \<lparr>files = (\<lambda>p. NoFile)(''/home/u/.deepseek_credentials.json'' := f),
      write_error = (\<lambda>p. None), net_log = [], stdout = []\<rparr>"

section \<open>Facts about the mocked environment\<close>

lemma mock_loads_creds: "mock_loads (mock_dumps mock_creds) = Inr mock_creds"
  by (simp add: mock_loads_def)

lemma mock_path:
  "path_join ''/home/u'' ''.deepseek_credentials.json'' = ''/home/u/.deepseek_credentials.json''"
  by (simp add: path_join_def)

section \<open>Properties of login\<close>

text \<open>
  Claim C1. With a non-empty \<open>api_key\<close>, \<open>login\<close> of either facade returns normally, the
  only change of the client is that \<open>Authorization\<close> is \<open>Bearer <key>\<close> in the headers (every
  other header and attribute is as before), and the world is untouched: the network log
  did not grow and no file was read or written.
\<close>

theorem login_api_key:
  assumes "api_key a = Some k" and "k \<noteq> []"
  shows "async_login env a w =
           (Inr (), a\<lparr>headers := AList.update ''Authorization'' (PStr (''Bearer '' @ k)) (headers a)\<rparr>, w)
       \<and> sync_login env a w =
           (Inr (), a\<lparr>headers := AList.update ''Authorization'' (PStr (''Bearer '' @ k)) (headers a)\<rparr>, w)
       \<and> map_of (headers (fst (snd (async_login env a w)))) ''Authorization'' = Some (PStr (''Bearer '' @ k))
       \<and> map_of (headers (fst (snd (sync_login env a w)))) ''Authorization'' = Some (PStr (''Bearer '' @ k))"
  using assms by (simp add: async_login_def sync_login_def update_conv')

theorem login_api_key_witness:
  "async_login mock_env (async_init mock_env None None None (Some ''sk-1'') None) (mock_world NoFile) =
     (Inr (),
      (async_init mock_env None None None (Some ''sk-1'') None)
        \<lparr>headers := [(''User-Agent'', PStr ''mock''), (''Authorization'', PStr ''Bearer sk-1'')]\<rparr>,
      mock_world NoFile)"
  using login_api_key [of "async_init mock_env None None None (Some ''sk-1'') None" "''sk-1''"
      mock_env "mock_world NoFile"]
  by (simp add: async_init_def mock_env_def)

text \<open>
  Claim C2. With no \<open>api_key\<close> and a credential file that exists and parses to a cached
  record (a JSON object), \<open>login\<close> of either facade returns normally; the client changes
  only in \<open>credentials\<close>, which holds the record, and in the \<open>Cookie\<close> header, which is what
  \<^verbatim>\<open>.get("cookie")\<close> gives on the record; \<open>Authorization\<close> is as before; the world is
  untouched, so no network call was made.
\<close>

theorem login_cached_cookie:
  assumes "\<not> truthy (api_key a)"
      and "files w (credentials_path a) = File content"
      and "json_loads env content = Inr (PDict kvs)"
  shows "async_login env a w =
           (Inr (),
            a\<lparr>credentials := Some (PDict kvs),
              headers := AList.update ''Cookie''
                (case map_of kvs ''cookie'' of None \<Rightarrow> PNone | Some v \<Rightarrow> v) (headers a)\<rparr>,
            w)
       \<and> sync_login env a w =
           (Inr (),
            a\<lparr>credentials := Some (PDict kvs),
              headers := AList.update ''Cookie''
                (case map_of kvs ''cookie'' of None \<Rightarrow> PNone | Some v \<Rightarrow> v) (headers a)\<rparr>,
            w)
       \<and> map_of (headers (fst (snd (async_login env a w)))) ''Authorization'' =
           map_of (headers a) ''Authorization''
       \<and> map_of (headers (fst (snd (sync_login env a w)))) ''Authorization'' =
           map_of (headers a) ''Authorization''
       \<and> net_log (snd (snd (async_login env a w))) = net_log w
       \<and> net_log (snd (snd (sync_login env a w))) = net_log w"
  using assms by (simp add: async_login_def sync_login_def update_conv')

theorem login_cached_cookie_witness:
  "async_login mock_env (async_init mock_env None None None None None)
     (mock_world (File (mock_dumps mock_creds))) =
     (Inr (),
      (async_init mock_env None None None None None)
        \<lparr>credentials := Some mock_creds,
          headers := [(''User-Agent'', PStr ''mock''), (''Cookie'', PStr ''ck'')]\<rparr>,
      mock_world (File (mock_dumps mock_creds)))"
  using login_cached_cookie [of "async_init mock_env None None None None None"
      "mock_world (File (mock_dumps mock_creds))" "mock_dumps mock_creds" mock_env
      "[(''session_id'', PStr ''sid''), (''auth_token'', PStr ''tok''), (''cookie'', PStr ''ck'')]"]
    mock_loads_creds
  by (simp add: async_init_def mock_env_def mock_world_def mock_path mock_creds_def)

text \<open>
  Claim C3. With no \<open>api_key\<close>, no usable cached credential file (the file is missing,
  cannot be read, does not parse, or parses to something that is not an object) and email
  or password missing, \<open>login\<close> of either facade raises the \<open>ValueError\<close> of line 59 and
  159; the network log did not grow, and the headers and the files are as before.
\<close>

theorem login_missing_credentials:
  assumes "\<not> truthy (api_key a)"
      and "\<not> cache_usable env a w"
      and "\<not> truthy (email a) \<or> \<not> truthy (password a)"
  shows "fst (async_login env a w) = Inl (ValueError ''Email and password are required for login.'')
       \<and> net_log (snd (snd (async_login env a w))) = net_log w
       \<and> headers (fst (snd (async_login env a w))) = headers a
       \<and> files (snd (snd (async_login env a w))) = files w
       \<and> fst (sync_login env a w) = Inl (ValueError ''Email and password are required for login.'')
       \<and> net_log (snd (snd (sync_login env a w))) = net_log w
       \<and> headers (fst (snd (sync_login env a w))) = headers a
       \<and> files (snd (snd (sync_login env a w))) = files w"
  using assms
  by (auto simp add: async_login_def sync_login_def async_fresh_login_def sync_fresh_login_def
      cache_usable_def print_def Let_def split: disk_file.splits sum.splits py.splits)

theorem login_missing_credentials_witness:
  "fst (async_login mock_env (async_init mock_env (Some ''me@example.org'') None None None None)
          (mock_world (File ''[]''))) =
     Inl (ValueError ''Email and password are required for login.'')
   \<and> net_log (snd (snd (async_login mock_env
          (async_init mock_env (Some ''me@example.org'') None None None None)
          (mock_world (File ''[]''))))) = []"
  using login_missing_credentials [of "async_init mock_env (Some ''me@example.org'') None None None None"
      mock_env "mock_world (File ''[]'')"]
  by (simp add: async_init_def mock_env_def mock_world_def mock_path cache_usable_def
      mock_loads_def mock_creds_def)

text \<open>
  Claim C5. With no \<open>api_key\<close> and a credential file whose content \<^verbatim>\<open>json.loads\<close> rejects,
  the exception of the parser does not leave \<open>login\<close>: \<open>login\<close> is the fresh login (lines 58
  to 75, 158 to 175) run on the same client, in a world that differs only by the printed
  diagnostic. Its outcome is the configuration error when email or password is missing,
  and otherwise the outcome of the fresh login.
\<close>

theorem login_corrupt_cache:
  assumes "\<not> truthy (api_key a)"
      and "files w (credentials_path a) = File content"
      and "json_loads env content = Inl e"
  shows "async_login env a w =
           async_fresh_login env a (print (''Error loading credentials: '' @ exn_str e) w)
       \<and> sync_login env a w =
           sync_fresh_login env a (print (''Error loading credentials: '' @ exn_str e) w)
       \<and> fst (async_login env a w) =
           (if \<not> truthy (email a) \<or> \<not> truthy (password a)
            then Inl (ValueError ''Email and password are required for login.'')
            else fst (async_fresh_login env a w))
       \<and> fst (sync_login env a w) =
           (if \<not> truthy (email a) \<or> \<not> truthy (password a)
            then Inl (ValueError ''Email and password are required for login.'')
            else fst (sync_fresh_login env a w))"
  using assms
  by (simp add: async_login_def sync_login_def async_fresh_login_def sync_fresh_login_def
      print_def net_def Let_def split: sum.splits option.splits)

theorem login_corrupt_cache_witness:
  "async_login mock_env (async_init mock_env (Some ''me@example.org'') (Some ''pw'') None None None)
     (mock_world (File ''not json'')) =
   async_fresh_login mock_env (async_init mock_env (Some ''me@example.org'') (Some ''pw'') None None None)
     (print ''Error loading credentials: Expecting value: line 1 column 1 (char 0)''
        (mock_world (File ''not json'')))
   \<and> fst (async_login mock_env (async_init mock_env (Some ''me@example.org'') (Some ''pw'') None None None)
     (mock_world (File ''not json''))) = Inr ()
   \<and> fst (async_login mock_env (async_init mock_env (Some ''me@example.org'') None None None None)
     (mock_world (File ''not json''))) = Inl (ValueError ''Email and password are required for login.'')"
  using login_corrupt_cache [of "async_init mock_env (Some ''me@example.org'') (Some ''pw'') None None None"
      "mock_world (File ''not json'')" "''not json''" mock_env
      "JSONDecodeError ''Expecting value: line 1 column 1 (char 0)''"]
    login_corrupt_cache [of "async_init mock_env (Some ''me@example.org'') None None None None"
      "mock_world (File ''not json'')" "''not json''" mock_env
      "JSONDecodeError ''Expecting value: line 1 column 1 (char 0)''"]
  by (simp add: async_init_def mock_env_def mock_world_def mock_path mock_loads_def mock_creds_def
      async_fresh_login_def net_def print_def)

text \<open>
  Claim C6, as stated, fails. The cached file \<^verbatim>\<open>{}\<close> parses as JSON and has none of the
  three fields; a client with email and password then logs in without any network call,
  with \<open>Cookie\<close> set to \<^verbatim>\<open>None\<close>, while a fresh login would have made the three calls.
\<close>

theorem login_partial_record_counterexample:
  "async_login mock_env (async_init mock_env (Some ''me@example.org'') (Some ''pw'') None None None)
     (mock_world (File ''{}'')) =
     (Inr (),
      (async_init mock_env (Some ''me@example.org'') (Some ''pw'') None None None)
        \<lparr>credentials := Some (PDict []),
          headers := [(''User-Agent'', PStr ''mock''), (''Cookie'', PNone)]\<rparr>,
      mock_world (File ''{}''))
   \<and> sync_login mock_env (sync_init mock_env (Some ''me@example.org'') (Some ''pw'') None None None)
     (mock_world (File ''{}'')) =
     (Inr (),
      (sync_init mock_env (Some ''me@example.org'') (Some ''pw'') None None None)
        \<lparr>credentials := Some (PDict []),
          headers := [(''User-Agent'', PStr ''mock''), (''Cookie'', PNone)]\<rparr>,
      mock_world (File ''{}''))
   \<and> net_log (snd (snd (async_fresh_login mock_env
        (async_init mock_env (Some ''me@example.org'') (Some ''pw'') None None None)
        (mock_world (File ''{}''))))) =
     [SessionCall, AuthCall ''me@example.org'' ''pw'' ''sid'', CookieCall ''tok'']"
  by (simp add: async_login_def sync_login_def async_init_def sync_init_def mock_env_def
      mock_world_def mock_path mock_loads_def mock_creds_def async_fresh_login_def net_def)

text \<open>
  Claim C6, amended. A cached record that parses to a JSON object is used as it is,
  whichever of the three fields it lacks: \<open>login\<close> of either facade returns normally,
  \<open>credentials\<close> holds the record, the \<open>Cookie\<close> header is the value under \<^verbatim>\<open>cookie\<close>, or
  \<^verbatim>\<open>None\<close> when that key is absent, and the world is untouched (no network call, no fresh
  login). The fields \<^verbatim>\<open>session_id\<close> and \<^verbatim>\<open>auth_token\<close> are never looked at.
\<close>

theorem login_partial_record_used:
  assumes "\<not> truthy (api_key a)"
      and "files w (credentials_path a) = File content"
      and "json_loads env content = Inr (PDict kvs)"
      and "map_of kvs ''session_id'' = None \<or> map_of kvs ''auth_token'' = None
           \<or> map_of kvs ''cookie'' = None"
  shows "fst (async_login env a w) = Inr ()
       \<and> credentials (fst (snd (async_login env a w))) = Some (PDict kvs)
       \<and> map_of (headers (fst (snd (async_login env a w)))) ''Cookie'' =
           Some (case map_of kvs ''cookie'' of None \<Rightarrow> PNone | Some v \<Rightarrow> v)
       \<and> snd (snd (async_login env a w)) = w
       \<and> fst (sync_login env a w) = Inr ()
       \<and> credentials (fst (snd (sync_login env a w))) = Some (PDict kvs)
       \<and> map_of (headers (fst (snd (sync_login env a w)))) ''Cookie'' =
           Some (case map_of kvs ''cookie'' of None \<Rightarrow> PNone | Some v \<Rightarrow> v)
       \<and> snd (snd (sync_login env a w)) = w"
  using assms by (simp add: async_login_def sync_login_def update_conv')

theorem login_partial_record_used_witness:
  "fst (async_login mock_env (async_init mock_env (Some ''me@example.org'') (Some ''pw'') None None None)
     (mock_world (File ''{}''))) = Inr ()
   \<and> map_of (headers (fst (snd (async_login mock_env
        (async_init mock_env (Some ''me@example.org'') (Some ''pw'') None None None)
        (mock_world (File ''{}'')))))) ''Cookie'' = Some PNone
   \<and> snd (snd (async_login mock_env
        (async_init mock_env (Some ''me@example.org'') (Some ''pw'') None None None)
        (mock_world (File ''{}'')))) = mock_world (File ''{}'')"
  using login_partial_record_used [of
      "async_init mock_env (Some ''me@example.org'') (Some ''pw'') None None None"
      "mock_world (File ''{}'')" "''{}''" mock_env "[]"]
  by (simp add: async_init_def mock_env_def mock_world_def mock_path mock_loads_def mock_creds_def)

section \<open>The credential cache round trip\<close>

lemma async_fresh_login_saved:
  assumes "async_fresh_login env a w = (Inr (), a', w')"
  shows "\<exists>sid tok ck.
           session_id a' = Some sid \<and> auth_token a' = Some tok \<and> cookie a' = Some ck
         \<and> credentials a' = Some (PDict
             [(''session_id'', PStr sid), (''auth_token'', PStr tok), (''cookie'', PStr ck)])
         \<and> files w' (credentials_path a) = File (json_dumps env (PDict
             [(''session_id'', PStr sid), (''auth_token'', PStr tok), (''cookie'', PStr ck)]))"
  using assms unfolding async_fresh_login_def Let_def
  by (auto split: if_splits sum.splits option.splits)

lemma sync_fresh_login_eq: "sync_fresh_login env a w = async_fresh_login env a w"
  by (simp add: sync_fresh_login_def async_fresh_login_def)

lemma login_reads_saved:
  assumes "\<not> truthy (api_key b)"
      and "files w (credentials_path b) = File (json_dumps env (PDict kvs))"
      and "json_loads env (json_dumps env (PDict kvs)) = Inr (PDict kvs)"
  shows "fst (async_login env b w) = Inr ()"
    and "credentials (fst (snd (async_login env b w))) = Some (PDict kvs)"
    and "fst (sync_login env b w) = Inr ()"
    and "credentials (fst (snd (sync_login env b w))) = Some (PDict kvs)"
  using assms by (simp_all add: async_login_def sync_login_def)

text \<open>
  Claim C9. Let the fresh login of either facade have returned normally, in the world
  \<open>w'\<close>, and let \<open>c\<close> be the credentials it assigned. Then \<open>c\<close> is the record of the three
  strings session id, auth token and cookie, and the credential file holds
  \<^verbatim>\<open>json.dumps(c)\<close> and nothing else. If \<^verbatim>\<open>json.loads\<close> reads \<^verbatim>\<open>json.dumps(c)\<close> back as \<open>c\<close> (the
  round trip of the JSON library, which is a parameter here), any client without an
  \<open>api_key\<close> that uses the same path then logs in from the cache, through either facade,
  with \<open>credentials\<close> equal to \<open>c\<close>.
\<close>

theorem credentials_round_trip:
  assumes "async_fresh_login env a w = (Inr (), a', w')
           \<or> sync_fresh_login env a w = (Inr (), a', w')"
      and "credentials a' = Some c"
      and "json_loads env (json_dumps env c) = Inr c"
      and "\<not> truthy (api_key b)"
      and "credentials_path b = credentials_path a"
  shows "(\<exists>sid tok ck.
            session_id a' = Some sid \<and> auth_token a' = Some tok \<and> cookie a' = Some ck
          \<and> c = PDict [(''session_id'', PStr sid), (''auth_token'', PStr tok), (''cookie'', PStr ck)])
       \<and> files w' (credentials_path a) = File (json_dumps env c)
       \<and> fst (async_login env b w') = Inr ()
       \<and> credentials (fst (snd (async_login env b w'))) = Some c
       \<and> fst (sync_login env b w') = Inr ()
       \<and> credentials (fst (snd (sync_login env b w'))) = Some c"
proof -
  have saved: "async_fresh_login env a w = (Inr (), a', w')"
    using assms(1) by (simp add: sync_fresh_login_eq)
  from async_fresh_login_saved [OF saved] assms(2)
  obtain sid tok ck where
    ids: "session_id a' = Some sid" "auth_token a' = Some tok" "cookie a' = Some ck"
    and c: "c = PDict [(''session_id'', PStr sid), (''auth_token'', PStr tok), (''cookie'', PStr ck)]"
    and f: "files w' (credentials_path a) = File (json_dumps env c)"
    by auto
  have fb: "files w' (credentials_path b) = File (json_dumps env c)"
    using f assms(5) by simp
  note loaded = login_reads_saved [OF assms(4) fb [unfolded c] assms(3) [unfolded c], folded c]
  show ?thesis
    using ids c f loaded by simp
qed

theorem credentials_round_trip_witness:
  "fst (async_fresh_login mock_env
         (async_init mock_env (Some ''me@example.org'') (Some ''pw'') None None None)
         (mock_world NoFile)) = Inr ()
   \<and> credentials (fst (snd (sync_login mock_env
         (sync_init mock_env None None None None None)
         (snd (snd (async_fresh_login mock_env
            (async_init mock_env (Some ''me@example.org'') (Some ''pw'') None None None)
            (mock_world NoFile))))))) = Some mock_creds"
proof -
  define a where "a = async_init mock_env (Some ''me@example.org'') (Some ''pw'') None None None"
  define b where "b = sync_init mock_env None None None None None"
  define a' where "a' = fst (snd (async_fresh_login mock_env a (mock_world NoFile)))"
  define w' where "w' = snd (snd (async_fresh_login mock_env a (mock_world NoFile)))"
  have r: "fst (async_fresh_login mock_env a (mock_world NoFile)) = Inr ()"
    by (simp add: a_def async_fresh_login_def async_init_def mock_env_def net_def mock_world_def)
  have run: "async_fresh_login mock_env a (mock_world NoFile) = (Inr (), a', w')"
    using r by (simp add: a'_def w'_def prod_eq_iff)
  have cr: "credentials a' = Some mock_creds"
    by (simp add: a'_def a_def async_fresh_login_def async_init_def mock_env_def net_def
        mock_world_def mock_creds_def)
  have rt: "json_loads mock_env (json_dumps mock_env mock_creds) = Inr mock_creds"
    by (simp add: mock_env_def mock_loads_def)
  have k: "\<not> truthy (api_key b)"
    by (simp add: b_def sync_init_def)
  have p: "credentials_path b = credentials_path a"
    by (simp add: a_def b_def sync_init_def async_init_def)
  from credentials_round_trip [OF disjI1 [OF run] cr rt k p]
  have "credentials (fst (snd (sync_login mock_env b w'))) = Some mock_creds"
    by simp
  then show ?thesis
    using r by (simp add: a_def b_def w'_def)
qed

section \<open>Properties of send_message\<close>

lemma reply_content_shape:
  assumes "map_of kvs ''choices'' = Some (PList (PDict ch # rest))"
      and "map_of ch ''message'' = Some (PDict m)"
      and "map_of m ''content'' = Some c"
  shows "reply_content (PDict kvs) = Inr c"
  using assms by (simp add: reply_content_def)

lemma with_chat_headers_client: "client (with_chat_headers a) = client a"
  by (simp add: with_chat_headers_def)

lemma with_chat_headers_proxies: "proxies (with_chat_headers a) = proxies a"
  by (simp add: with_chat_headers_def)

lemma with_chat_headers_history: "chat_history (with_chat_headers a) = chat_history a"
  by (simp add: with_chat_headers_def)

text \<open>
  Claim C7. Let a send with \<^verbatim>\<open>stream=False\<close> succeed: the transport answers the request
  with a response, \<^verbatim>\<open>raise_for_status\<close> does not raise, and the body is an object whose
  \<^verbatim>\<open>choices\<close> is a list that starts with an object whose \<^verbatim>\<open>message\<close> is an object with
  \<^verbatim>\<open>content\<close> \<open>c\<close>. Then either facade returns the reply, and the chat history afterwards is
  the history before with the user turn and then the assistant turn appended.
\<close>

theorem send_message_appends_two_turns:
  assumes "client_stream env (client a) ''POST'' (chat_url (with_chat_headers a))
             (sent_headers (with_chat_headers a))
             (chat_payload message model False kwargs (with_chat_headers a)) = Inr r"
      and "raise_for_status env r = None"
      and "resp_json r = Inr (PDict kvs)"
      and "map_of kvs ''choices'' = Some (PList (PDict ch # rest))"
      and "map_of ch ''message'' = Some (PDict m)"
      and "map_of m ''content'' = Some c"
  shows "fst (async_send_message env message model False kwargs a w) = Inr (Reply (PDict kvs))
       \<and> chat_history (fst (snd (async_send_message env message model False kwargs a w))) =
           chat_history a @
             [PDict [(''role'', PStr ''user''), (''content'', PStr message)],
              PDict [(''role'', PStr ''assistant''), (''content'', c)]]
       \<and> fst (sync_send_message env message model False kwargs a w) = Inr (Reply (PDict kvs))
       \<and> chat_history (fst (snd (sync_send_message env message model False kwargs a w))) =
           chat_history a @
             [PDict [(''role'', PStr ''user''), (''content'', PStr message)],
              PDict [(''role'', PStr ''assistant''), (''content'', c)]]"
proof -
  have c: "reply_content (PDict kvs) = Inr c"
    using assms(4-6) by (rule reply_content_shape)
  show ?thesis
    using assms(1-3) c with_chat_headers_client [of a] with_chat_headers_history [of a]
    by (simp add: async_send_message_def sync_send_message_def Let_def user_turn_def
        assistant_turn_def)
qed

theorem send_message_appends_two_turns_witness:
  "chat_history (fst (snd (async_send_message mock_env ''hello'' ''deepseek-chat'' False []
      (async_init mock_env None None None (Some ''sk-1'') None) (mock_world NoFile)))) =
     [PDict [(''role'', PStr ''user''), (''content'', PStr ''hello'')],
      PDict [(''role'', PStr ''assistant''), (''content'', PStr ''hi'')]]"
  using send_message_appends_two_turns [of mock_env
      "async_init mock_env None None None (Some ''sk-1'') None" "''hello''" "''deepseek-chat''" "[]"
      mock_response
      "[(''choices'', PList [PDict [(''message'', PDict [(''content'', PStr ''hi'')])]])]"
      "[(''message'', PDict [(''content'', PStr ''hi'')])]" "[]"
      "[(''content'', PStr ''hi'')]" "PStr ''hi''" "mock_world NoFile"]
  by (simp add: mock_env_def mock_response_def async_init_def)

text \<open>
  Claim C8. A send with \<^verbatim>\<open>stream=True\<close> leaves the chat history as it was, whatever the
  transport answers and whether the call returns or raises, in either facade.
\<close>

theorem send_message_stream_keeps_history:
  "chat_history (fst (snd (async_send_message env message model True kwargs a w))) = chat_history a
   \<and> chat_history (fst (snd (sync_send_message env message model True kwargs a w))) = chat_history a"
  unfolding async_send_message_def sync_send_message_def Let_def
  by (auto simp add: with_chat_headers_history split: sum.splits option.splits)

theorem send_message_stream_keeps_history_witness:
  "chat_history (fst (snd (async_send_message mock_env ''hello'' ''deepseek-chat'' True []
      ((async_init mock_env None None None (Some ''sk-1'') None)
         \<lparr>chat_history := [PDict [(''role'', PStr ''user''), (''content'', PStr ''earlier'')]]\<rparr>)
      (mock_world NoFile)))) =
     [PDict [(''role'', PStr ''user''), (''content'', PStr ''earlier'')]]"
  using send_message_stream_keeps_history [of mock_env "''hello''" "''deepseek-chat''" "[]"
      "(async_init mock_env None None None (Some ''sk-1'') None)
         \<lparr>chat_history := [PDict [(''role'', PStr ''user''), (''content'', PStr ''earlier'')]]\<rparr>"
      "mock_world NoFile"]
  by (simp add: async_init_def)

section \<open>The stream decoder yields the frames before the sentinel\<close>

lemma stream_decoder_frames:
  "stream_decoder sentinel keep_alive loads fs = frames_before_sentinel sentinel keep_alive loads fs"
  by (induction fs)
    (simp_all add: frames_before_sentinel_def frame_value_def split: sum.splits)

lemma stream_decoder_stops:
  "sentinel f \<Longrightarrow>
   stream_decoder sentinel keep_alive loads (pre @ f # post) =
   stream_decoder sentinel keep_alive loads pre"
  by (induction pre) (simp_all split: sum.splits)

text \<open>
  Claim C4. On every sequence of frames the decoder yields the parsed values of the
  frames that precede the first sentinel, in order, where an empty frame, a keep-alive
  ping and a frame that does not parse contribute nothing and do not stop the sequence;
  and what follows a sentinel is never yielded: the frames from a sentinel on can be cut
  off without changing the output.
\<close>

theorem stream_decoder_correct:
  "stream_decoder sentinel keep_alive loads fs = frames_before_sentinel sentinel keep_alive loads fs
   \<and> (sentinel f \<longrightarrow>
        stream_decoder sentinel keep_alive loads (pre @ f # post) =
        stream_decoder sentinel keep_alive loads pre)"
  by (intro conjI impI stream_decoder_frames stream_decoder_stops)

theorem stream_decoder_correct_witness:
  "stream_decoder (\<lambda>f. f = ''[DONE]'') (\<lambda>f. f = '': ping'') mock_loads
     [''{}'', [], ''oops'', '': ping'', ''[]'', ''[DONE]'', ''{}''] = [PDict [], PList []]
   \<and> stream_decoder (\<lambda>f. f = ''[DONE]'') (\<lambda>f. f = '': ping'') mock_loads
     ([''{}'', [], ''oops'', '': ping'', ''[]''] @ ''[DONE]'' # [''{}'']) =
     stream_decoder (\<lambda>f. f = ''[DONE]'') (\<lambda>f. f = '': ping'') mock_loads
       [''{}'', [], ''oops'', '': ping'', ''[]'']"
  using stream_decoder_correct [of "\<lambda>f. f = ''[DONE]''" "\<lambda>f. f = '': ping''" mock_loads
      "[''{}'', [], ''oops'', '': ping'', ''[]'', ''[DONE]'', ''{}'']" "''[DONE]''"
      "[''{}'', [], ''oops'', '': ping'', ''[]'']" "[''{}'']"]
  by (simp add: frames_before_sentinel_def frame_value_def mock_loads_def mock_creds_def)

section \<open>The blocking facade mirrors the asynchronous one\<close>

text \<open>No operation assigns the client or the proxies.\<close>

lemma async_fresh_login_keeps_transport:
  "client (fst (snd (async_fresh_login env a w))) = client a
   \<and> proxies (fst (snd (async_fresh_login env a w))) = proxies a"
  unfolding async_fresh_login_def Let_def
  by (auto split: sum.splits option.splits)

lemma async_login_keeps_transport:
  "client (fst (snd (async_login env a w))) = client a
   \<and> proxies (fst (snd (async_login env a w))) = proxies a"
  unfolding async_login_def Let_def
  by (auto simp add: async_fresh_login_keeps_transport split: disk_file.splits sum.splits)

lemma async_get_models_keeps_transport:
  "client (fst (snd (async_get_models env a w))) = client a
   \<and> proxies (fst (snd (async_get_models env a w))) = proxies a"
  unfolding async_get_models_def Let_def
  by (auto split: sum.splits option.splits)

lemma async_send_message_keeps_transport:
  "client (fst (snd (async_send_message env message model stream kwargs a w))) = client a
   \<and> proxies (fst (snd (async_send_message env message model stream kwargs a w))) = proxies a"
  unfolding async_send_message_def Let_def
  by (auto simp add: with_chat_headers_client with_chat_headers_proxies
      split: sum.splits option.splits)

lemma async_do_keeps_transport:
  "client (fst (snd (async_do env x a w))) = client a
   \<and> proxies (fst (snd (async_do env x a w))) = proxies a"
proof (cases x)
  case Login
  then show ?thesis
    using async_login_keeps_transport [of env a w] by (auto split: prod.splits)
next
  case GetModels
  then show ?thesis
    using async_get_models_keeps_transport [of env a w] by (auto split: prod.splits)
next
  case (SendMessage message model stream kwargs)
  then show ?thesis
    using async_send_message_keeps_transport [of env message model stream kwargs a w]
    by (auto split: prod.splits)
qed

text \<open>Each operation of the blocking facade, on a client that differs only in the
  transport object, does what the asynchronous one does.\<close>

lemma sync_fresh_login_client:
  assumes "same_transport env (client a) cs (proxies a)"
  shows "sync_fresh_login env (a\<lparr>client := cs\<rparr>) w = with_client cs (async_fresh_login env a w)"
  using assms
  by (simp add: same_transport_def sync_fresh_login_def async_fresh_login_def with_client_def
      Let_def split: sum.splits option.splits)

lemma sync_login_client:
  assumes "same_transport env (client a) cs (proxies a)"
  shows "sync_login env (a\<lparr>client := cs\<rparr>) w = with_client cs (async_login env a w)"
proof -
  have fresh: "sync_fresh_login env (b\<lparr>client := cs\<rparr>) v = with_client cs (async_fresh_login env b v)"
    if "client b = client a" and "proxies b = proxies a" for b v
    using that assms sync_fresh_login_client [of env b cs v] by simp
  have upd: "a\<lparr>client := cs, credentials := Some v\<rparr> = a\<lparr>credentials := Some v\<rparr>\<lparr>client := cs\<rparr>" for v
    by simp
  show ?thesis
    unfolding sync_login_def async_login_def
    by (simp add: fresh upd Let_def with_client_def split: disk_file.splits sum.splits)
qed

lemma sync_get_models_client:
  assumes "same_transport env (client a) cs (proxies a)"
  shows "sync_get_models env (a\<lparr>client := cs\<rparr>) w = with_client cs (async_get_models env a w)"
  using assms
  by (simp add: same_transport_def sync_get_models_def async_get_models_def with_client_def
      Let_def split: sum.splits option.splits)

lemma with_chat_headers_set_client:
  "with_chat_headers (a\<lparr>client := cs\<rparr>) = (with_chat_headers a)\<lparr>client := cs\<rparr>"
  by (simp add: with_chat_headers_def)

lemma chat_request_set_client:
  "chat_payload message model stream kwargs (b\<lparr>client := cs\<rparr>) =
     chat_payload message model stream kwargs b"
  "chat_url (b\<lparr>client := cs\<rparr>) = chat_url b"
  "sent_headers (b\<lparr>client := cs\<rparr>) = sent_headers b"
  by (simp_all add: chat_payload_def chat_url_def sent_headers_def)

lemma sync_send_message_client:
  assumes "same_transport env (client a) cs (proxies a)"
  shows "sync_send_message env message model stream kwargs (a\<lparr>client := cs\<rparr>) w =
         with_client cs (async_send_message env message model stream kwargs a w)"
proof -
  have t: "client_stream env cs = client_stream env (client (with_chat_headers a))"
    using assms by (simp add: same_transport_def with_chat_headers_client)
  show ?thesis
    unfolding sync_send_message_def async_send_message_def Let_def
    by (simp add: with_chat_headers_set_client chat_request_set_client t with_client_def
        split: sum.splits option.splits)
qed

lemma sync_do_client:
  assumes "same_transport env (client a) cs (proxies a)"
  shows "sync_do env x (a\<lparr>client := cs\<rparr>) w = with_client cs (async_do env x a w)"
  using assms
  by (cases x)
    (simp_all add: sync_login_client sync_get_models_client sync_send_message_client
      with_client_def split: prod.splits)

lemma sync_run_client:
  assumes "same_transport env (client a) cs (proxies a)"
  shows "sync_run env ops (a\<lparr>client := cs\<rparr>) w = with_client cs (async_run env ops a w)"
  using assms
proof (induction ops arbitrary: a w)
  case Nil
  then show ?case by (simp add: with_client_def)
next
  case (Cons x xs)
  obtain r a1 w1 where step: "async_do env x a w = (r, a1, w1)"
    by (cases "async_do env x a w") auto
  have "client a1 = client a" and "proxies a1 = proxies a"
    using async_do_keeps_transport [of env x a w] step by simp_all
  then have "same_transport env (client a1) cs (proxies a1)"
    using Cons.prems by simp
  then have rest: "sync_run env xs (a1\<lparr>client := cs\<rparr>) w1 = with_client cs (async_run env xs a1 w1)"
    by (rule Cons.IH)
  have first: "sync_do env x (a\<lparr>client := cs\<rparr>) w = (r, a1\<lparr>client := cs\<rparr>, w1)"
    using sync_do_client [OF Cons.prems, of x w] step by (simp add: with_client_def)
  show ?case
    by (simp add: first step rest with_client_def split: prod.splits)
qed

text \<open>
  Claim C10. Let the transports answer alike (\<open>same_transport\<close>). Then for every
  configuration and every sequence of \<open>login\<close>, \<open>get_models\<close> and \<open>send_message\<close>, the
  blocking facade started from its constructor gives the same outcomes (results and
  exceptions, in order) as the asynchronous facade started from its constructor, ends in
  the same client state but for the transport object (so the same headers, chat headers,
  chat history and credentials), and leaves the same world: the same log of requests with
  their headers and payloads, the same files and the same printed lines.
\<close>

theorem facades_mirror:
  assumes "same_transport env (AsyncClient px) (HttpxClient px) px"
  shows "sync_run env ops (sync_init env em pw px key url) w =
         with_client (HttpxClient px) (async_run env ops (async_init env em pw px key url) w)"
proof -
  have "sync_init env em pw px key url =
        (async_init env em pw px key url)\<lparr>client := HttpxClient px\<rparr>"
    by (simp add: sync_init_def async_init_def)
  moreover have "same_transport env (client (async_init env em pw px key url)) (HttpxClient px)
      (proxies (async_init env em pw px key url))"
    using assms by (simp add: async_init_def)
  ultimately show ?thesis
    using sync_run_client by simp
qed

theorem facades_mirror_witness:
  "same_transport mock_env (AsyncClient None) (HttpxClient None) None
   \<and> sync_run mock_env [Login, SendMessage ''hello'' ''deepseek-chat'' False [], GetModels]
       (sync_init mock_env None None None (Some ''sk-1'') None) (mock_world NoFile) =
     with_client (HttpxClient None)
       (async_run mock_env [Login, SendMessage ''hello'' ''deepseek-chat'' False [], GetModels]
          (async_init mock_env None None None (Some ''sk-1'') None) (mock_world NoFile))
   \<and> fst (async_run mock_env [Login, GetModels]
          (async_init mock_env None None None (Some ''sk-1'') None) (mock_world NoFile)) =
     [LoginDone (Inr ()), ModelsDone (resp_json mock_response)]"
proof -
  have t: "same_transport mock_env (AsyncClient None) (HttpxClient None) None"
    by (simp add: same_transport_def mock_env_def)
  have e: "fst (async_run mock_env [Login, GetModels]
          (async_init mock_env None None None (Some ''sk-1'') None) (mock_world NoFile)) =
     [LoginDone (Inr ()), ModelsDone (resp_json mock_response)]"
    by (simp add: async_login_def async_get_models_def async_init_def mock_env_def Let_def)
  show ?thesis
    by (intro conjI t e facades_mirror [OF t])
qed

end
